theory Spec2Isabelle
  imports Main
begin

section \<open>Python values\<close>

text \<open>
  The rotation lambda works on JSON documents (the result of \<^verbatim>\<open>json.loads\<close>), on
  Python strings and on exceptions. A Python \<^verbatim>\<open>str\<close> is modelled as a \<^typ>\<open>string\<close>
  whose characters are the code points below 256; a JSON number is an integer (JSON
  floats are left out); a JSON object is a finite map from keys to values.
\<close>

datatype json =
    JNull
  | JBool bool
  | JInt int
  | JStr string
  | JArr "json list"
  | JObj "string \<Rightarrow> json option"

type_synonym pydict = "string \<Rightarrow> json option"

text \<open>Python truthiness, as used by \<^verbatim>\<open>if not username\<close>.\<close>

fun truthy :: "json \<Rightarrow> bool" where
  "truthy JNull = False"
| "truthy (JBool b) = b"
| "truthy (JInt n) = (n \<noteq> 0)"
| "truthy (JStr s) = (s \<noteq> [])"
| "truthy (JArr xs) = (xs \<noteq> [])"
| "truthy (JObj m) = (m \<noteq> Map.empty)"

text \<open>
  The exceptions the lambda raises or lets through. \<open>ValueError\<close> and \<open>KeyError\<close> carry
  the message the source builds; \<open>PsycopgError\<close> stands for \<^verbatim>\<open>psycopg.Error\<close> and its
  subclasses; \<open>OtherError\<close> is any other exception of an external library.
\<close>

datatype error =
    ValueError string
  | KeyError string
  | TypeError
  | AttributeError
  | JSONDecodeError
  | ResourceNotFoundException
  | ResourceExistsException
  | InvalidRequestException
  | InvalidParameterException
  | ParamValidationError
  | PsycopgError string
  | OtherError string

subsection \<open>\<^verbatim>\<open>str.strip\<close> and \<^verbatim>\<open>str.lower\<close>\<close>

text \<open>
  \<^verbatim>\<open>str.strip()\<close> removes leading and trailing whitespace. Below code point 256 the
  whitespace characters of Python are 9 to 13, 28 to 32, 133 and 160.
\<close>

definition isspace :: "char \<Rightarrow> bool" where
  "isspace c =
     (let n = (of_char c :: nat)
      in (9 \<le> n \<and> n \<le> 13) \<or> (28 \<le> n \<and> n \<le> 32) \<or> n = 133 \<or> n = 160)"

definition strip :: "string \<Rightarrow> string" where
  "strip s = rev (dropWhile isspace (rev (dropWhile isspace s)))"

text \<open>
  \<^verbatim>\<open>str.lower()\<close>: below code point 256 the upper-case letters are 65 to 90 and
  192 to 222 without 215, each 32 below its lower-case form.
\<close>

definition lower_char :: "char \<Rightarrow> char" where
  "lower_char c =
     (let n = (of_char c :: nat)
      in if (65 \<le> n \<and> n \<le> 90) \<or> (192 \<le> n \<and> n \<le> 222 \<and> n \<noteq> 215)
         then char_of (n + 32) else c)"

definition lower :: "string \<Rightarrow> string" where
  "lower s = map lower_char s"

section \<open>The world outside the lambda\<close>

text \<open>
  The token signer, the certificate download and the database are external. Their
  answers are the fields of an environment; what the lambda does to them is recorded in
  the world state. The environment also holds the interpreter's conversion of a string
  to an integer (\<^verbatim>\<open>int\<close> applied to a \<^verbatim>\<open>str\<close>): which strings it accepts, and the
  \<open>ValueError\<close> it raises on the others, belong to the interpreter and to its setting
  of the digit limit, not to the lambda.
\<close>

datatype scope = Admin | Standard

record dsql_request =
  req_scope :: scope
  req_host :: json
  req_region :: string
  req_expires :: int

type_synonym path = nat

record conn_params =
  pg_dbname :: json
  pg_user :: json
  pg_password :: json
  pg_port :: int
  pg_host :: json
  pg_sslmode :: string
  pg_sslrootcert :: "path option"

record env =
  AWS_REGION :: string
  dsql_sign :: "dsql_request \<Rightarrow> error + string"
  http_get :: "string \<Rightarrow> error + string"
  pg_connect :: "conn_params \<Rightarrow> error option"
  pg_execute :: "conn_params \<Rightarrow> string \<Rightarrow> error option"
  pg_commit :: "conn_params \<Rightarrow> error option"
  int_of_str :: "string \<Rightarrow> error + int"

text \<open>
  A \<^verbatim>\<open>SecretString\<close> is represented by what \<^verbatim>\<open>json.loads\<close> makes of it: a JSON value,
  or nothing when the text is not JSON.
\<close>

datatype plaintext = NotJson | Json json

definition json_loads :: "plaintext \<Rightarrow> error + json" where
  "json_loads p = (case p of NotJson \<Rightarrow> Inl JSONDecodeError | Json j \<Rightarrow> Inr j)"

definition json_dumps :: "pydict \<Rightarrow> plaintext" where
  "json_dumps d = Json (JObj d)"

text \<open>
  One secret of the store: the \<^verbatim>\<open>RotationEnabled\<close> key of its metadata (which may be
  absent), the ordered dictionary \<^verbatim>\<open>VersionIdsToStages\<close>, and the value stored under
  each version id.
\<close>

record secret =
  RotationEnabled :: "bool option"
  VersionIdsToStages :: "(string \<times> string list) list"
  SecretStrings :: "string \<Rightarrow> plaintext option"

record world =
  secrets :: "string \<Rightarrow> secret option"
  dsql_requests :: "dsql_request list"
  files :: "(path \<times> string) list"
  unlinked :: "path list"
  connections :: "conn_params list"

section \<open>The secret store\<close>

text \<open>
  The secret store (the \<^verbatim>\<open>secretsmanager\<close> client) is an external collaborator: its
  code is not part of the repository. Its four operations are modelled from section 6
  of the specification.
\<close>

text \<open>
  Modelled from the spec: \<open>describeSecret(id)\<close> of the external secret store, which
  returns the rotation flag and the version-to-stages map of the secret; an unknown
  secret is a \<open>ResourceNotFoundException\<close>.
\<close>

definition describe_secret :: "string \<Rightarrow> world \<Rightarrow> error + secret" where
  "describe_secret arn w =
     (case secrets w arn of None \<Rightarrow> Inl ResourceNotFoundException | Some s \<Rightarrow> Inr s)"

definition stages_of :: "secret \<Rightarrow> string \<Rightarrow> string list" where
  "stages_of s v = (case map_of (VersionIdsToStages s) v of None \<Rightarrow> [] | Some st \<Rightarrow> st)"

definition has_stage :: "string \<Rightarrow> string \<times> string list \<Rightarrow> bool" where
  "has_stage l vst = (l \<in> set (snd vst))"

text \<open>
  Modelled from the spec: \<open>getSecretValue(id, stage, [versionId])\<close> of the external
  secret store. With a version id it returns the value stored under that version, which
  must carry the stage (\<open>InvalidRequestException\<close> otherwise); without one it returns
  the value of the first version that carries the stage. A value that is not there is a
  \<open>ResourceNotFoundException\<close>, the exception \<^verbatim>\<open>create_secret\<close> catches.
\<close>

definition get_secret_value ::
  "string \<Rightarrow> string option \<Rightarrow> string \<Rightarrow> world \<Rightarrow> error + plaintext" where
  "get_secret_value arn version_id stage w =
     (case secrets w arn of
        None \<Rightarrow> Inl ResourceNotFoundException
      | Some s \<Rightarrow>
          (case version_id of
             Some v \<Rightarrow>
               (case SecretStrings s v of
                  None \<Rightarrow> Inl ResourceNotFoundException
                | Some p \<Rightarrow>
                    if stage \<in> set (stages_of s v) then Inr p
                    else Inl InvalidRequestException)
           | None \<Rightarrow>
               (case find (has_stage stage) (VersionIdsToStages s) of
                  None \<Rightarrow> Inl ResourceNotFoundException
                | Some vst \<Rightarrow>
                    (case SecretStrings s (fst vst) of
                       None \<Rightarrow> Inl ResourceNotFoundException
                     | Some p \<Rightarrow> Inr p))))"

text \<open>
  Modelled from the spec: \<open>putSecretValue(id, versionId, secretString, [stages])\<close> of the
  external secret store, which fails if the version already exists (it has a value).
  Storing a version under stage labels takes each of those labels away from every other
  version (\<open>detach_others\<close>) and gives them to the new one (\<open>attach\<close>).
\<close>

definition detach_others ::
  "string \<Rightarrow> string list \<Rightarrow> (string \<times> string list) list \<Rightarrow> (string \<times> string list) list" where
  "detach_others v stages vs =
     map (\<lambda>(u, st). if u = v then (u, st) else (u, filter (\<lambda>l. l \<notin> set stages) st)) vs"

definition attach ::
  "string \<Rightarrow> string list \<Rightarrow> (string \<times> string list) list \<Rightarrow> (string \<times> string list) list" where
  "attach v stages vs =
     (if v \<in> fst ` set vs
      then map (\<lambda>(u, st). if u = v then (u, st @ filter (\<lambda>l. l \<notin> set st) stages) else (u, st)) vs
      else vs @ [(v, stages)])"

definition put_secret_value ::
  "string \<Rightarrow> string \<Rightarrow> plaintext \<Rightarrow> string list \<Rightarrow> world \<Rightarrow> (error + unit) \<times> world" where
  "put_secret_value arn token p stages w =
     (case secrets w arn of
        None \<Rightarrow> (Inl ResourceNotFoundException, w)
      | Some s \<Rightarrow>
          if SecretStrings s token \<noteq> None then (Inl ResourceExistsException, w)
          else (Inr (),
                w\<lparr>secrets := (secrets w)(arn \<mapsto>
                    s\<lparr>VersionIdsToStages :=
                         attach token stages (detach_others token stages (VersionIdsToStages s)),
                       SecretStrings := (SecretStrings s)(token \<mapsto> p)\<rparr>)\<rparr>))"

text \<open>
  Modelled from the spec: \<open>updateVersionStage(id, stage, moveToVersion, removeFromVersion)\<close>
  of the external secret store, an atomic stage transfer (\<open>move_stage\<close>). The client
  rejects a \<^verbatim>\<open>RemoveFromVersionId\<close> that is \<^verbatim>\<open>None\<close> (a parameter of the wrong
  type); the store rejects a target version it does not know and a source version that
  does not carry the stage.
\<close>

definition move_stage ::
  "string \<Rightarrow> string \<Rightarrow> string \<Rightarrow> (string \<times> string list) list \<Rightarrow> (string \<times> string list) list" where
  "move_stage stage to_v from_v vs =
     map (\<lambda>(u, st).
            if u = to_v then (u, if stage \<in> set st then st else st @ [stage])
            else if u = from_v then (u, removeAll stage st)
            else (u, st)) vs"

definition update_secret_version_stage ::
  "string \<Rightarrow> string \<Rightarrow> string \<Rightarrow> string option \<Rightarrow> world \<Rightarrow> (error + unit) \<times> world" where
  "update_secret_version_stage arn stage move_to remove_from w =
     (case remove_from of
        None \<Rightarrow> (Inl ParamValidationError, w)
      | Some from_v \<Rightarrow>
          (case secrets w arn of
             None \<Rightarrow> (Inl ResourceNotFoundException, w)
           | Some s \<Rightarrow>
               if move_to \<notin> fst ` set (VersionIdsToStages s)
               then (Inl ResourceNotFoundException, w)
               else if stage \<notin> set (stages_of s from_v)
               then (Inl InvalidParameterException, w)
               else (Inr (),
                     w\<lparr>secrets := (secrets w)(arn \<mapsto>
                         s\<lparr>VersionIdsToStages :=
                              move_stage stage move_to from_v (VersionIdsToStages s)\<rparr>)\<rparr>)))"

section \<open>GenerateAuthToken\<close>

record GenerateAuthToken =
  gen_host :: json
  gen_region :: string
  gen_expires_in_secs :: int

definition GenerateAuthToken_init :: "env \<Rightarrow> json \<Rightarrow> int \<Rightarrow> GenerateAuthToken" where
  "GenerateAuthToken_init e host expires_in_secs =
     \<lparr>gen_host = host, gen_region = AWS_REGION e, gen_expires_in_secs = expires_in_secs\<rparr>"

text \<open>
  A call of \<^verbatim>\<open>dsql_client.generate_db_connect_admin_auth_token\<close> or
  \<^verbatim>\<open>dsql_client.generate_db_connect_auth_token\<close>: the request carries the host, the
  region and the expiry; the world keeps the list of requests issued.
\<close>

definition dsql_generate ::
  "env \<Rightarrow> scope \<Rightarrow> json \<Rightarrow> string \<Rightarrow> int \<Rightarrow> world \<Rightarrow> (error + string) \<times> world" where
  "dsql_generate e sc host reg expires w =
     (let rq = \<lparr>req_scope = sc, req_host = host, req_region = reg, req_expires = expires\<rparr>
      in (dsql_sign e rq, w\<lparr>dsql_requests := dsql_requests w @ [rq]\<rparr>))"

definition generate_auth_token ::
  "env \<Rightarrow> GenerateAuthToken \<Rightarrow> json \<Rightarrow> world \<Rightarrow> (error + string) \<times> world" where
  "generate_auth_token e self username w =
     (if \<not> truthy username then (Inl (ValueError ''Username cannot be empty''), w)
      else case username of
        JStr s \<Rightarrow>
          (let username' = lower (strip s)
           in if username' = ''admin''
              then dsql_generate e Admin (gen_host self) (gen_region self)
                     (gen_expires_in_secs self) w
              else dsql_generate e Standard (gen_host self) (gen_region self)
                     (gen_expires_in_secs self) w)
      | _ \<Rightarrow> (Inl AttributeError, w))"

section \<open>Reading and validating a secret\<close>

text \<open>
  \<^verbatim>\<open>x in container\<close> for the value \<^verbatim>\<open>json.loads\<close> returned: a key test on a
  dictionary, a membership test on a list, a substring test on a string, and a
  \<open>TypeError\<close> on anything else.
\<close>

fun contains :: "string \<Rightarrow> string \<Rightarrow> bool" where
  "contains p [] = (p = [])"
| "contains p (c # cs) = (take (length p) (c # cs) = p \<or> contains p cs)"

definition required_fields :: "string list" where
  "required_fields = [''username'', ''password'', ''host'']"

definition supported_engines :: "json list" where
  "supported_engines = [JStr ''postgres'']"

fun check_fields :: "string list \<Rightarrow> pydict \<Rightarrow> error + pydict" where
  "check_fields [] secret_dict = Inr secret_dict"
| "check_fields (field # rest) secret_dict =
     (if secret_dict field = None
      then Inl (KeyError (field @ '' key is missing from secret JSON''))
      else check_fields rest secret_dict)"

definition engine_error :: error where
  "engine_error =
     KeyError (''Database engine must be set to '' @ [CHR 0x27] @ ''postgres'' @ [CHR 0x27]
               @ '' in order to use this rotation lambda'')"

definition get_secret_dict ::
  "string \<Rightarrow> string \<Rightarrow> string option \<Rightarrow> world \<Rightarrow> error + pydict" where
  "get_secret_dict arn stage token w =
     (case (if token \<noteq> None \<and> token \<noteq> Some []
            then get_secret_value arn token stage w
            else get_secret_value arn None stage w) of
        Inl err \<Rightarrow> Inl err
      | Inr plaintext \<Rightarrow>
          (case json_loads plaintext of
             Inl err \<Rightarrow> Inl err
           | Inr (JObj secret_dict) \<Rightarrow>
               (case secret_dict ''engine'' of
                  None \<Rightarrow> Inl engine_error
                | Some engine \<Rightarrow>
                    if engine \<notin> set supported_engines then Inl engine_error
                    else check_fields required_fields secret_dict)
           | Inr (JArr xs) \<Rightarrow>
               if JStr ''engine'' \<in> set xs then Inl TypeError else Inl engine_error
           | Inr (JStr s) \<Rightarrow>
               if contains ''engine'' s then Inl TypeError else Inl engine_error
           | Inr _ \<Rightarrow> Inl TypeError))"

section \<open>Connecting to the database\<close>

text \<open>
  \<^verbatim>\<open>int(x)\<close> on a JSON value: an integer as it is, a boolean as 0 or 1, a string as
  the interpreter converts it, and a \<open>TypeError\<close> on \<^verbatim>\<open>None\<close>, a list or a dictionary.
\<close>

definition py_int :: "env \<Rightarrow> json \<Rightarrow> error + int" where
  "py_int e x =
     (case x of
        JInt n \<Rightarrow> Inr n
      | JBool b \<Rightarrow> Inr (if b then 1 else 0)
      | JStr s \<Rightarrow> int_of_str e s
      | _ \<Rightarrow> Inl TypeError)"

subsection \<open>The temporary certificate file\<close>

text \<open>
  \<^verbatim>\<open>tempfile.NamedTemporaryFile(delete=False)\<close> creates an empty file under a name no
  existing file has. \<^verbatim>\<open>os.unlink\<close> removes a file; every call is recorded.
\<close>

definition fresh_path :: "(path \<times> string) list \<Rightarrow> path" where
  "fresh_path fs = Suc (foldr max (map fst fs) 0)"

definition path_exists :: "path \<Rightarrow> world \<Rightarrow> bool" where
  "path_exists p w = (p \<in> fst ` set (files w))"

definition unlink :: "path \<Rightarrow> world \<Rightarrow> world" where
  "unlink p w =
     w\<lparr>files := filter (\<lambda>f. fst f \<noteq> p) (files w), unlinked := unlinked w @ [p]\<rparr>"

definition write_file :: "path \<Rightarrow> string \<Rightarrow> world \<Rightarrow> world" where
  "write_file p content w =
     w\<lparr>files := map (\<lambda>f. if fst f = p then (p, snd f @ content) else f) (files w)\<rparr>"

definition cert_url :: string where
  "cert_url = ''https://www.amazontrust.com/repository/AmazonRootCA1.pem''"

definition get_amazon_root_cert :: "env \<Rightarrow> world \<Rightarrow> (error + path) \<times> world" where
  "get_amazon_root_cert e w =
     (let cert_file = fresh_path (files w);
          w1 = w\<lparr>files := files w @ [(cert_file, [])]\<rparr>
      in case http_get e cert_url of
           Inr content \<Rightarrow> (Inr cert_file, write_file cert_file content w1)
         | Inl err \<Rightarrow> (Inl err, unlink cert_file w1))"

subsection \<open>The two TLS tiers\<close>

definition is_psycopg_error :: "error \<Rightarrow> bool" where
  "is_psycopg_error err = (case err of PsycopgError m \<Rightarrow> True | _ \<Rightarrow> False)"

text \<open>
  \<^verbatim>\<open>psycopg.connect\<close>: the environment decides whether the database accepts the
  parameters; an accepted connection is open until it is closed.
\<close>

definition psycopg_connect :: "env \<Rightarrow> conn_params \<Rightarrow> world \<Rightarrow> (error + conn_params) \<times> world" where
  "psycopg_connect e params w =
     (case pg_connect e params of
        None \<Rightarrow> (Inr params, w\<lparr>connections := params # connections w\<rparr>)
      | Some err \<Rightarrow> (Inl err, w))"

definition conn_close :: "conn_params \<Rightarrow> world \<Rightarrow> world" where
  "conn_close conn w = w\<lparr>connections := remove1 conn (connections w)\<rparr>"

definition getitem :: "pydict \<Rightarrow> string \<Rightarrow> error + json" where
  "getitem d k = (case d k of None \<Rightarrow> Inl (KeyError k) | Some v \<Rightarrow> Inr v)"

text \<open>
  The \<^verbatim>\<open>try\<close> block of \<^verbatim>\<open>connect_and_authenticate\<close>: a connection with
  \<open>verify-full\<close>; when that raises a \<^verbatim>\<open>psycopg.Error\<close>, a connection with \<open>require\<close>;
  when that raises a \<^verbatim>\<open>psycopg.Error\<close> too, \<^verbatim>\<open>None\<close>. Any other exception is not
  caught.
\<close>

definition try_connect ::
  "env \<Rightarrow> conn_params \<Rightarrow> conn_params \<Rightarrow> world \<Rightarrow> (error + conn_params option) \<times> world" where
  "try_connect e verify_full_dict require_dict w =
     (case psycopg_connect e verify_full_dict w of
        (Inr conn, w') \<Rightarrow> (Inr (Some conn), w')
      | (Inl err, w') \<Rightarrow>
          if is_psycopg_error err
          then (case psycopg_connect e require_dict w' of
                  (Inr conn, w'') \<Rightarrow> (Inr (Some conn), w'')
                | (Inl err2, w'') \<Rightarrow>
                    if is_psycopg_error err2 then (Inr None, w'')
                    else (Inl err2, w''))
          else (Inl err, w'))"

text \<open>
  The connection dictionary is built after the certificate is fetched and before the
  \<^verbatim>\<open>try\<close>, so a missing field raises \<open>KeyError\<close> outside the \<^verbatim>\<open>finally\<close>. The
  \<^verbatim>\<open>finally\<close> clause removes the certificate file when it exists (the name of a
  temporary file is never the empty string, so \<^verbatim>\<open>cert_path\<close> is true).
\<close>

definition connect_and_authenticate ::
  "env \<Rightarrow> pydict \<Rightarrow> int \<Rightarrow> json \<Rightarrow> world \<Rightarrow> (error + conn_params option) \<times> world" where
  "connect_and_authenticate e secret_dict port dbname w =
     (case get_amazon_root_cert e w of
        (Inl err, w1) \<Rightarrow> (Inl err, w1)
      | (Inr cert_path, w1) \<Rightarrow>
          (case getitem secret_dict ''username'' of
             Inl err \<Rightarrow> (Inl err, w1)
           | Inr username \<Rightarrow>
          (case getitem secret_dict ''password'' of
             Inl err \<Rightarrow> (Inl err, w1)
           | Inr password \<Rightarrow>
          (case getitem secret_dict ''host'' of
             Inl err \<Rightarrow> (Inl err, w1)
           | Inr host \<Rightarrow>
               (let verify_full_dict =
                      \<lparr>pg_dbname = dbname, pg_user = username, pg_password = password,
                       pg_port = port, pg_host = host, pg_sslmode = ''verify-full'',
                       pg_sslrootcert = Some cert_path\<rparr>;
                    require_dict =
                      \<lparr>pg_dbname = dbname, pg_user = username, pg_password = password,
                       pg_port = port, pg_host = host, pg_sslmode = ''require'',
                       pg_sslrootcert = None\<rparr>;
                    (r, w2) = try_connect e verify_full_dict require_dict w1
                in (r, if path_exists cert_path w2 then unlink cert_path w2 else w2))))))"

definition get_connection ::
  "env \<Rightarrow> pydict \<Rightarrow> world \<Rightarrow> (error + conn_params option) \<times> world" where
  "get_connection e secret_dict w =
     (case (case secret_dict ''port'' of Some p \<Rightarrow> py_int e p | None \<Rightarrow> Inr 5432) of
        Inl err \<Rightarrow> (Inl err, w)
      | Inr port \<Rightarrow>
          (let dbname = (case secret_dict ''dbname'' of Some d \<Rightarrow> d | None \<Rightarrow> JStr ''postgres'')
           in connect_and_authenticate e secret_dict port dbname w))"

section \<open>The four phases\<close>

definition create_secret :: "env \<Rightarrow> string \<Rightarrow> string \<Rightarrow> world \<Rightarrow> (error + unit) \<times> world" where
  "create_secret e arn token w =
     (case get_secret_dict arn ''AWSCURRENT'' None w of
        Inl err \<Rightarrow> (Inl err, w)
      | Inr current_dict \<Rightarrow>
          (case get_secret_dict arn ''AWSPENDING'' (Some token) w of
             Inr pending_dict \<Rightarrow> (Inr (), w)
           | Inl err \<Rightarrow>
               if err \<noteq> ResourceNotFoundException then (Inl err, w)
               else
                 (case getitem current_dict ''host'' of
                    Inl err1 \<Rightarrow> (Inl err1, w)
                  | Inr host \<Rightarrow>
                 (case getitem current_dict ''username'' of
                    Inl err2 \<Rightarrow> (Inl err2, w)
                  | Inr username \<Rightarrow>
                 (case generate_auth_token e (GenerateAuthToken_init e host 28800) username w of
                    (Inl err3, w1) \<Rightarrow> (Inl err3, w1)
                  | (Inr password, w1) \<Rightarrow>
                      put_secret_value arn token
                        (json_dumps (current_dict(''password'' \<mapsto> JStr password)))
                        [''AWSPENDING''] w1)))))"

definition set_secret :: "string \<Rightarrow> string \<Rightarrow> world \<Rightarrow> (error + unit) \<times> world" where
  "set_secret arn token w = (Inr (), w)"

definition test_secret :: "env \<Rightarrow> string \<Rightarrow> string \<Rightarrow> world \<Rightarrow> (error + unit) \<times> world" where
  "test_secret e arn token w =
     (case get_secret_dict arn ''AWSPENDING'' (Some token) w of
        Inl err \<Rightarrow> (Inl err, w)
      | Inr secret_dict \<Rightarrow>
          (case get_connection e secret_dict w of
             (Inl err, w1) \<Rightarrow> (Inl err, w1)
           | (Inr (Some conn), w1) \<Rightarrow>
               (let r = (case pg_execute e conn ''SELECT CURRENT_TIMESTAMP'' of
                           Some err \<Rightarrow> Inl err
                         | None \<Rightarrow>
                             (case pg_commit e conn of Some err \<Rightarrow> Inl err | None \<Rightarrow> Inr ()))
                in (r, conn_close conn w1))
           | (Inr None, w1) \<Rightarrow>
               (Inl (ValueError
                      (''Unable to log into database with pending secret of secret ARN '' @ arn)),
                w1)))"

text \<open>
  The loop of \<^verbatim>\<open>finish_secret\<close> over \<^verbatim>\<open>VersionIdsToStages\<close>: it stops at the first
  version staged \<open>AWSCURRENT\<close>, returning from the function when that version is the
  token and leaving the loop with it otherwise; when no version is staged
  \<open>AWSCURRENT\<close> the loop ends with \<^verbatim>\<open>current_version = None\<close>.
\<close>

datatype loop_exit = Returned | Left "string option"

fun find_current :: "string \<Rightarrow> (string \<times> string list) list \<Rightarrow> loop_exit" where
  "find_current token [] = Left None"
| "find_current token ((version, stages) # rest) =
     (if ''AWSCURRENT'' \<in> set stages
      then (if version = token then Returned else Left (Some version))
      else find_current token rest)"

definition finish_secret :: "string \<Rightarrow> string \<Rightarrow> world \<Rightarrow> (error + unit) \<times> world" where
  "finish_secret arn token w =
     (case describe_secret arn w of
        Inl err \<Rightarrow> (Inl err, w)
      | Inr metadata \<Rightarrow>
          (case find_current token (VersionIdsToStages metadata) of
             Returned \<Rightarrow> (Inr (), w)
           | Left current_version \<Rightarrow>
               update_secret_version_stage arn ''AWSCURRENT'' token current_version w))"

section \<open>The handler\<close>

record event =
  SecretId :: string
  ClientRequestToken :: string
  Step :: string

text \<open>The second half of \<^verbatim>\<open>lambda_handler\<close>, under its comment "Call the appropriate step".\<close>

definition call_step :: "env \<Rightarrow> string \<Rightarrow> string \<Rightarrow> string \<Rightarrow> world \<Rightarrow> (error + unit) \<times> world" where
  "call_step e arn token step w =
     (if step = ''createSecret'' then create_secret e arn token w
      else if step = ''setSecret'' then set_secret arn token w
      else if step = ''testSecret'' then test_secret e arn token w
      else if step = ''finishSecret'' then finish_secret arn token w
      else (Inl (ValueError (''Invalid step parameter '' @ step @ '' for secret '' @ arn)), w))"

definition lambda_handler :: "env \<Rightarrow> event \<Rightarrow> world \<Rightarrow> (error + unit) \<times> world" where
  "lambda_handler e ev w =
     (let arn = SecretId ev; token = ClientRequestToken ev; step = Step ev
      in case describe_secret arn w of
           Inl err \<Rightarrow> (Inl err, w)
         | Inr metadata \<Rightarrow>
             if RotationEnabled metadata = Some False
             then (Inl (ValueError (''Secret '' @ arn @ '' is not enabled for rotation'')), w)
             else
               (case map_of (VersionIdsToStages metadata) token of
                  None \<Rightarrow>
                    (Inl (ValueError (''Secret version '' @ token
                            @ '' has no stage for rotation of secret '' @ arn @ ''.'')), w)
                | Some stages \<Rightarrow>
                    if ''AWSCURRENT'' \<in> set stages then (Inr (), w)
                    else if ''AWSPENDING'' \<notin> set stages
                    then (Inl (ValueError (''Secret version '' @ token
                                 @ '' not set as AWSPENDING for rotation of secret '' @ arn @ ''.'')),
                          w)
                    else call_step e arn token step w))"

section \<open>Example environments and stores\<close>

text \<open>
  An environment in which every external call succeeds, and a world with nothing in it.
  The example documents carry no \<open>port\<close>, so the string conversion of the example
  environments is never asked; it answers for the default port only.
\<close>

definition demo_env :: env where
  "demo_env =
     \<lparr>AWS_REGION = ''us-east-1'',
      dsql_sign = (\<lambda>rq. Inr (case req_scope rq of Admin \<Rightarrow> ''admin-token''
                                | Standard \<Rightarrow> ''user-token'')),
      http_get = (\<lambda>url. Inr ''PEM''),
      pg_connect = (\<lambda>p. None),
      pg_execute = (\<lambda>p q. None),
      pg_commit = (\<lambda>p. None),
      int_of_str = (\<lambda>s. if s = ''5432'' then Inr 5432
                        else Inl (OtherError ''a port the examples do not use''))\<rparr>"

definition empty_world :: world where
  "empty_world =
     \<lparr>secrets = Map.empty, dsql_requests = [], files = [], unlinked = [], connections = []\<rparr>"

definition demo_generator :: GenerateAuthToken where
  "demo_generator = GenerateAuthToken_init demo_env (JStr ''db.example'') 900"

text \<open>
  A secret in the middle of a rotation: version \<open>v1\<close> is current, version \<open>v2\<close> is the
  attempt token, staged pending and still without a value; \<open>v0\<close> is the previous version.
\<close>

definition demo_doc :: pydict where
  "demo_doc =
     [''username'' \<mapsto> JStr ''app'', ''password'' \<mapsto> JStr ''old-token'',
      ''host'' \<mapsto> JStr ''db.example'', ''engine'' \<mapsto> JStr ''postgres'']"

definition demo_secret :: secret where
  "demo_secret =
     \<lparr>RotationEnabled = Some True,
      VersionIdsToStages =
        [(''v0'', [''AWSPREVIOUS'']), (''v1'', [''AWSCURRENT'']), (''v2'', [''AWSPENDING''])],
      SecretStrings = [''v0'' \<mapsto> Json (JObj demo_doc), ''v1'' \<mapsto> Json (JObj demo_doc)]\<rparr>"

definition demo_world :: world where
  "demo_world = empty_world\<lparr>secrets := [''arn'' \<mapsto> demo_secret]\<rparr>"

text \<open>The same secret with rotation switched off.\<close>

definition disabled_world :: world where
  "disabled_world =
     empty_world\<lparr>secrets := [''arn'' \<mapsto> demo_secret\<lparr>RotationEnabled := Some False\<rparr>]\<rparr>"

text \<open>A store whose current version holds the document \<open>d\<close>.\<close>

definition doc_world :: "pydict \<Rightarrow> world" where
  "doc_world d =
     empty_world\<lparr>secrets :=
       [''arn'' \<mapsto> demo_secret\<lparr>SecretStrings := [''v1'' \<mapsto> Json (JObj d)]\<rparr>]\<rparr>"

definition demo_event :: "string \<Rightarrow> string \<Rightarrow> event" where
  "demo_event token step = \<lparr>SecretId = ''arn'', ClientRequestToken = token, Step = step\<rparr>"

text \<open>The store after \<open>createSecret\<close>: the pending version \<open>v2\<close> holds the new document.\<close>

definition pending_doc :: pydict where
  "pending_doc = demo_doc(''password'' \<mapsto> JStr ''user-token'')"

definition pending_secret :: secret where
  "pending_secret =
     demo_secret\<lparr>SecretStrings :=
       [''v0'' \<mapsto> Json (JObj demo_doc), ''v1'' \<mapsto> Json (JObj demo_doc),
        ''v2'' \<mapsto> Json (JObj pending_doc)]\<rparr>"

definition pending_world :: world where
  "pending_world = empty_world\<lparr>secrets := [''arn'' \<mapsto> pending_secret]\<rparr>"

text \<open>The store after \<open>finishSecret\<close>: the current stage has moved from \<open>v1\<close> to \<open>v2\<close>.\<close>

definition finished_secret :: secret where
  "finished_secret =
     pending_secret\<lparr>VersionIdsToStages :=
       [(''v0'', [''AWSPREVIOUS'']), (''v1'', []), (''v2'', [''AWSPENDING'', ''AWSCURRENT''])]\<rparr>"

definition finished_world :: world where
  "finished_world = empty_world\<lparr>secrets := [''arn'' \<mapsto> finished_secret]\<rparr>"

text \<open>
  Environments in which the liveness query fails, in which only the strict TLS tier
  fails, and in which the database rejects every connection.
\<close>

definition query_fail_env :: env where
  "query_fail_env = demo_env\<lparr>pg_execute := (\<lambda>p q. Some (PsycopgError ''permission denied''))\<rparr>"

definition fallback_env :: env where
  "fallback_env =
     demo_env\<lparr>pg_connect := (\<lambda>p. if pg_sslmode p = ''verify-full''
                                 then Some (PsycopgError ''certificate verify failed'')
                                 else None)\<rparr>"

definition reject_env :: env where
  "reject_env = demo_env\<lparr>pg_connect := (\<lambda>p. Some (PsycopgError ''access denied''))\<rparr>"

text \<open>The store and the signing log after \<open>createSecret\<close> has run on the demo world.\<close>

definition created_world :: world where
  "created_world =
     pending_world\<lparr>dsql_requests :=
       [\<lparr>req_scope = Standard, req_host = JStr ''db.example'', req_region = ''us-east-1'',
         req_expires = 28800\<rparr>]\<rparr>"

section \<open>The token generator\<close>

text \<open>
  Claim C8, as stated, asks for a failure on every username that is empty after
  trimming. The source tests the username before it trims it, so a username of three
  spaces passes the test, is trimmed to the empty string, and is signed on the standard
  path: a token is produced.
\<close>

theorem generate_auth_token_blank_counterexample:
  "fst (generate_auth_token demo_env demo_generator (JStr ''   '') empty_world)
   = Inr ''user-token''"
  by (simp add: generate_auth_token_def demo_generator_def GenerateAuthToken_init_def
      demo_env_def dsql_generate_def strip_def isspace_def lower_def)

text \<open>
  Claim C8, amended: \<^verbatim>\<open>generate_auth_token\<close> fails with \<open>ValueError\<close>, leaving the world
  as it was (no signing request is issued), for every username that is empty before
  trimming (the empty string and every other falsy value); a username that is not empty
  but consists of whitespace only is not rejected, it is signed on the standard path.
\<close>

theorem generate_auth_token_empty:
  "(\<not> truthy username \<longrightarrow>
      generate_auth_token e self username w = (Inl (ValueError ''Username cannot be empty''), w))
   \<and> (s \<noteq> [] \<and> strip s = [] \<longrightarrow>
      generate_auth_token e self (JStr s) w =
        dsql_generate e Standard (gen_host self) (gen_region self) (gen_expires_in_secs self) w)"
  by (simp add: generate_auth_token_def lower_def)

theorem generate_auth_token_empty_witness:
  "\<not> truthy (JStr []) \<and>
   generate_auth_token demo_env demo_generator (JStr []) empty_world
     = (Inl (ValueError ''Username cannot be empty''), empty_world)
   \<and> '' '' \<noteq> [] \<and> strip '' '' = []
   \<and> fst (generate_auth_token demo_env demo_generator (JStr '' '') empty_world)
       = Inr ''user-token''"
  using generate_auth_token_empty [of "JStr []" demo_env demo_generator empty_world "'' ''"]
  by (simp add: strip_def isspace_def dsql_generate_def demo_env_def demo_generator_def
      GenerateAuthToken_init_def)

text \<open>
  Claim C9, as stated, has the credential request scoped to the requesting principal, so
  that tokens requested for distinct principals are not interchangeable. The request
  the source issues carries the host, the region and the expiry only: for the two
  principals \<open>alice\<close> and \<open>bob\<close> the same request is issued, and the same token and the
  same world result.
\<close>

theorem generate_auth_token_principal_counterexample:
  "generate_auth_token demo_env demo_generator (JStr ''alice'') empty_world
   = generate_auth_token demo_env demo_generator (JStr ''bob'') empty_world"
  by (simp add: generate_auth_token_def demo_generator_def GenerateAuthToken_init_def
      demo_env_def dsql_generate_def strip_def isspace_def lower_def lower_char_def
      char_of_eq_iff take_bit_eq_mod)

text \<open>
  Claim C9, amended: every token \<^verbatim>\<open>generate_auth_token\<close> produces for a non-empty
  username comes from one signing request scoped to the generator's host, region and
  expiry; the request is admin-scoped when the trimmed lower-case username is \<open>admin\<close>
  and standard-scoped for any other username; the username is not part of the request.
\<close>

theorem generate_auth_token_scope:
  "s \<noteq> [] \<Longrightarrow>
   generate_auth_token e self (JStr s) w =
     (let rq = \<lparr>req_scope = (if lower (strip s) = ''admin'' then Admin else Standard),
                req_host = gen_host self, req_region = gen_region self,
                req_expires = gen_expires_in_secs self\<rparr>
      in (dsql_sign e rq, w\<lparr>dsql_requests := dsql_requests w @ [rq]\<rparr>))"
  by (simp add: generate_auth_token_def dsql_generate_def Let_def)

theorem generate_auth_token_scope_witness:
  "''Admin'' \<noteq> [] \<and> ''app_user'' \<noteq> [] \<and>
   fst (generate_auth_token demo_env demo_generator (JStr ''Admin'') empty_world)
     = Inr ''admin-token'' \<and>
   fst (generate_auth_token demo_env demo_generator (JStr ''app_user'') empty_world)
     = Inr ''user-token''"
  using generate_auth_token_scope [of "''Admin''" demo_env demo_generator empty_world]
    generate_auth_token_scope [of "''app_user''" demo_env demo_generator empty_world]
  by (simp add: strip_def isspace_def lower_def lower_char_def demo_env_def Let_def
      char_of_eq_iff take_bit_eq_mod)

section \<open>Validation of the secret document\<close>

lemma check_fields_find:
  "check_fields fs d =
     (case find (\<lambda>f. d f = None) fs of
        None \<Rightarrow> Inr d
      | Some f \<Rightarrow> Inl (KeyError (f @ '' key is missing from secret JSON'')))"
  by (induction fs) auto

text \<open>
  Claim C7: for a secret value that parses to a document \<open>d\<close>, \<^verbatim>\<open>get_secret_dict\<close>
  raises an error when the \<open>engine\<close> field is missing or is not \<open>postgres\<close>, raises an
  error when one of \<open>username\<close>, \<open>password\<close>, \<open>host\<close> is missing (the first missing one
  is named), and returns \<open>d\<close> when the engine is \<open>postgres\<close> and the three fields are
  there.
\<close>

theorem get_secret_dict_validation:
  assumes "(if token \<noteq> None \<and> token \<noteq> Some []
            then get_secret_value arn token stage w
            else get_secret_value arn None stage w) = Inr (Json (JObj d))"
  shows "(d ''engine'' \<noteq> Some (JStr ''postgres'') \<longrightarrow>
            get_secret_dict arn stage token w = Inl engine_error)
       \<and> (d ''engine'' = Some (JStr ''postgres'') \<and> d ''username'' = None \<longrightarrow>
            get_secret_dict arn stage token w =
              Inl (KeyError ''username key is missing from secret JSON''))
       \<and> (d ''engine'' = Some (JStr ''postgres'') \<and> d ''username'' \<noteq> None \<and>
            d ''password'' = None \<longrightarrow>
            get_secret_dict arn stage token w =
              Inl (KeyError ''password key is missing from secret JSON''))
       \<and> (d ''engine'' = Some (JStr ''postgres'') \<and> d ''username'' \<noteq> None \<and>
            d ''password'' \<noteq> None \<and> d ''host'' = None \<longrightarrow>
            get_secret_dict arn stage token w =
              Inl (KeyError ''host key is missing from secret JSON''))
       \<and> (d ''engine'' = Some (JStr ''postgres'') \<and> d ''username'' \<noteq> None \<and>
            d ''password'' \<noteq> None \<and> d ''host'' \<noteq> None \<longrightarrow>
            get_secret_dict arn stage token w = Inr d)"
proof -
  have unfold: "get_secret_dict arn stage token w =
      (case d ''engine'' of
         None \<Rightarrow> Inl engine_error
       | Some engine \<Rightarrow>
           if engine \<notin> set supported_engines then Inl engine_error
           else check_fields required_fields d)"
    unfolding get_secret_dict_def assms by (simp add: json_loads_def)
  show ?thesis
    unfolding unfold
    by (auto simp: supported_engines_def required_fields_def split: option.splits)
qed

lemma doc_world_value:
  "(if (None :: string option) \<noteq> None \<and> (None :: string option) \<noteq> Some []
    then get_secret_value ''arn'' None ''AWSCURRENT'' (doc_world d)
    else get_secret_value ''arn'' None ''AWSCURRENT'' (doc_world d)) = Inr (Json (JObj d))"
  by (simp add: get_secret_value_def doc_world_def empty_world_def demo_secret_def has_stage_def)

theorem get_secret_dict_validation_witness:
  "get_secret_dict ''arn'' ''AWSCURRENT'' None (doc_world demo_doc) = Inr demo_doc
   \<and> get_secret_dict ''arn'' ''AWSCURRENT'' None (doc_world (demo_doc(''engine'' \<mapsto> JStr ''mysql'')))
       = Inl engine_error
   \<and> get_secret_dict ''arn'' ''AWSCURRENT'' None (doc_world (demo_doc(''engine'' := None)))
       = Inl engine_error
   \<and> get_secret_dict ''arn'' ''AWSCURRENT'' None (doc_world (demo_doc(''password'' := None)))
       = Inl (KeyError ''password key is missing from secret JSON'')"
  using get_secret_dict_validation [OF doc_world_value, of demo_doc]
    get_secret_dict_validation [OF doc_world_value, of "demo_doc(''engine'' \<mapsto> JStr ''mysql'')"]
    get_secret_dict_validation [OF doc_world_value, of "demo_doc(''engine'' := None)"]
    get_secret_dict_validation [OF doc_world_value, of "demo_doc(''password'' := None)"]
  by (simp add: demo_doc_def)

section \<open>The handler's preconditions\<close>

text \<open>
  Claim C1: with the metadata of the secret fetched, the handler fails, with the world
  unchanged and whatever the step, when the metadata says rotation is not enabled; else
  when the attempt token is not in the version map; else, the token not being staged
  \<open>AWSCURRENT\<close>, when it is not staged \<open>AWSPENDING\<close>. When none of these holds and the
  token is not staged \<open>AWSCURRENT\<close>, the handler is the dispatch of the requested step;
  in the one remaining case, the token staged \<open>AWSCURRENT\<close>, it returns at once.
  (The source takes a metadata without the \<^verbatim>\<open>RotationEnabled\<close> key as enabled.)
\<close>

theorem lambda_handler_preconditions:
  assumes "secrets w (SecretId ev) = Some md"
  shows "(RotationEnabled md = Some False \<longrightarrow>
            lambda_handler e ev w =
              (Inl (ValueError (''Secret '' @ SecretId ev @ '' is not enabled for rotation'')), w))
       \<and> (RotationEnabled md \<noteq> Some False \<and>
            map_of (VersionIdsToStages md) (ClientRequestToken ev) = None \<longrightarrow>
            lambda_handler e ev w =
              (Inl (ValueError (''Secret version '' @ ClientRequestToken ev
                      @ '' has no stage for rotation of secret '' @ SecretId ev @ ''.'')), w))
       \<and> (RotationEnabled md \<noteq> Some False \<and>
            map_of (VersionIdsToStages md) (ClientRequestToken ev) = Some stages \<and>
            ''AWSCURRENT'' \<notin> set stages \<and> ''AWSPENDING'' \<notin> set stages \<longrightarrow>
            lambda_handler e ev w =
              (Inl (ValueError (''Secret version '' @ ClientRequestToken ev
                      @ '' not set as AWSPENDING for rotation of secret '' @ SecretId ev @ ''.'')),
               w))
       \<and> (RotationEnabled md \<noteq> Some False \<and>
            map_of (VersionIdsToStages md) (ClientRequestToken ev) = Some stages \<and>
            ''AWSCURRENT'' \<notin> set stages \<and> ''AWSPENDING'' \<in> set stages \<longrightarrow>
            lambda_handler e ev w =
              call_step e (SecretId ev) (ClientRequestToken ev) (Step ev) w)
       \<and> (RotationEnabled md \<noteq> Some False \<and>
            map_of (VersionIdsToStages md) (ClientRequestToken ev) = Some stages \<and>
            ''AWSCURRENT'' \<in> set stages \<longrightarrow>
            lambda_handler e ev w = (Inr (), w))"
  using assms by (simp add: lambda_handler_def describe_secret_def Let_def)

lemma demo_world_secret: "secrets demo_world ''arn'' = Some demo_secret"
  by (simp add: demo_world_def empty_world_def)

lemma disabled_world_secret:
  "secrets disabled_world ''arn'' = Some (demo_secret\<lparr>RotationEnabled := Some False\<rparr>)"
  by (simp add: disabled_world_def empty_world_def)

theorem lambda_handler_preconditions_witness:
  "lambda_handler demo_env (demo_event ''v2'' ''setSecret'') disabled_world
     = (Inl (ValueError ''Secret arn is not enabled for rotation''), disabled_world)
   \<and> lambda_handler demo_env (demo_event ''v9'' ''setSecret'') demo_world
     = (Inl (ValueError ''Secret version v9 has no stage for rotation of secret arn.''),
        demo_world)
   \<and> lambda_handler demo_env (demo_event ''v0'' ''setSecret'') demo_world
     = (Inl (ValueError ''Secret version v0 not set as AWSPENDING for rotation of secret arn.''),
        demo_world)
   \<and> lambda_handler demo_env (demo_event ''v2'' ''setSecret'') demo_world = (Inr (), demo_world)
   \<and> lambda_handler demo_env (demo_event ''v1'' ''setSecret'') demo_world = (Inr (), demo_world)"
  using lambda_handler_preconditions [of disabled_world "demo_event ''v2'' ''setSecret''"
      "demo_secret\<lparr>RotationEnabled := Some False\<rparr>" demo_env "[]"]
    lambda_handler_preconditions [of demo_world "demo_event ''v9'' ''setSecret''"
      demo_secret demo_env "[]"]
    lambda_handler_preconditions [of demo_world "demo_event ''v0'' ''setSecret''"
      demo_secret demo_env "[''AWSPREVIOUS'']"]
    lambda_handler_preconditions [of demo_world "demo_event ''v2'' ''setSecret''"
      demo_secret demo_env "[''AWSPENDING'']"]
    lambda_handler_preconditions [of demo_world "demo_event ''v1'' ''setSecret''"
      demo_secret demo_env "[''AWSCURRENT'']"]
  by (simp add: demo_event_def demo_world_secret disabled_world_secret demo_secret_def
      call_step_def set_secret_def)

text \<open>
  Claim C2, as stated, has the handler return success for every invocation whose attempt
  token is staged \<open>AWSCURRENT\<close>. The check that rotation is enabled comes first in the
  source: with rotation switched off the handler raises, although the token \<open>v1\<close> is
  staged \<open>AWSCURRENT\<close>.
\<close>

theorem lambda_handler_current_counterexample:
  "fst (lambda_handler demo_env (demo_event ''v1'' ''createSecret'') disabled_world)
   = Inl (ValueError ''Secret arn is not enabled for rotation'')"
  by (simp add: lambda_handler_def describe_secret_def Let_def demo_event_def
      disabled_world_def empty_world_def demo_secret_def)

text \<open>
  Claim C2, amended: for every invocation whose attempt token is staged \<open>AWSCURRENT\<close> the
  handler leaves the world as it was (no write to the store, no signing request, no
  file, no connection), whatever the step and the environment; and when the metadata
  does not say that rotation is disabled, it returns success.
\<close>

theorem lambda_handler_current:
  assumes "secrets w (SecretId ev) = Some md"
    and "map_of (VersionIdsToStages md) (ClientRequestToken ev) = Some stages"
    and "''AWSCURRENT'' \<in> set stages"
  shows "snd (lambda_handler e ev w) = w
       \<and> (RotationEnabled md \<noteq> Some False \<longrightarrow> lambda_handler e ev w = (Inr (), w))"
  using assms by (simp add: lambda_handler_def describe_secret_def Let_def)

theorem lambda_handler_current_witness:
  "lambda_handler demo_env (demo_event ''v1'' ''createSecret'') demo_world = (Inr (), demo_world)
   \<and> lambda_handler demo_env (demo_event ''v1'' ''noSuchStep'') demo_world = (Inr (), demo_world)"
  using lambda_handler_current [of demo_world "demo_event ''v1'' ''createSecret''"
      demo_secret "[''AWSCURRENT'']" demo_env]
    lambda_handler_current [of demo_world "demo_event ''v1'' ''noSuchStep''"
      demo_secret "[''AWSCURRENT'']" demo_env]
  by (simp add: demo_event_def demo_world_secret demo_secret_def)

text \<open>
  Claim C10: when the attempt token is staged \<open>AWSPENDING\<close> (and not \<open>AWSCURRENT\<close>) and the
  step is none of the four phases, the handler raises a \<open>ValueError\<close> and leaves the world
  as it was, so that no phase has acted; when the staging checks pass the error is the
  one of the dispatch, naming the step.
\<close>

theorem lambda_handler_invalid_step:
  assumes "secrets w (SecretId ev) = Some md"
    and "map_of (VersionIdsToStages md) (ClientRequestToken ev) = Some stages"
    and "''AWSPENDING'' \<in> set stages" and "''AWSCURRENT'' \<notin> set stages"
    and "Step ev \<notin> {''createSecret'', ''setSecret'', ''testSecret'', ''finishSecret''}"
  shows "(\<exists>msg. lambda_handler e ev w = (Inl (ValueError msg), w))
       \<and> (RotationEnabled md \<noteq> Some False \<longrightarrow>
            lambda_handler e ev w =
              (Inl (ValueError (''Invalid step parameter '' @ Step ev @ '' for secret ''
                                 @ SecretId ev)), w))"
  using assms by (simp add: lambda_handler_def describe_secret_def Let_def call_step_def)

theorem lambda_handler_invalid_step_witness:
  "lambda_handler demo_env (demo_event ''v2'' ''deleteSecret'') demo_world
   = (Inl (ValueError ''Invalid step parameter deleteSecret for secret arn''), demo_world)"
  using lambda_handler_invalid_step [of demo_world "demo_event ''v2'' ''deleteSecret''"
      demo_secret "[''AWSPENDING'']" demo_env]
  by (simp add: demo_event_def demo_world_secret demo_secret_def)

section \<open>The connection validator\<close>

lemma le_foldr_max: "x \<in> set xs \<Longrightarrow> x \<le> foldr max xs (0::nat)"
  by (induction xs) (auto simp: max_def)

lemma fresh_path_fresh: "f \<in> set fs \<Longrightarrow> fst f \<noteq> fresh_path fs"
  using le_foldr_max [of "fst f" "map fst fs"] by (auto simp: fresh_path_def)

lemma filter_fresh: "filter (\<lambda>f. fst f \<noteq> fresh_path fs) fs = fs"
  by (rule filter_True) (simp add: fresh_path_fresh)

lemma map_write_fresh:
  "map (\<lambda>f. if fst f = fresh_path fs then (fresh_path fs, snd f @ content) else f) fs = fs"
  by (rule map_idI) (simp add: fresh_path_fresh)

lemma get_amazon_root_cert_ok:
  "http_get e cert_url = Inr content \<Longrightarrow>
   get_amazon_root_cert e w =
     (Inr (fresh_path (files w)), w\<lparr>files := files w @ [(fresh_path (files w), content)]\<rparr>)"
  by (simp add: get_amazon_root_cert_def write_file_def Let_def map_write_fresh)

lemma get_amazon_root_cert_fail:
  "http_get e cert_url = Inl err \<Longrightarrow>
   get_amazon_root_cert e w =
     (Inl err, w\<lparr>unlinked := unlinked w @ [fresh_path (files w)]\<rparr>)"
  by (simp add: get_amazon_root_cert_def unlink_def Let_def filter_fresh)

lemma try_connect_world:
  "try_connect e vf rq w1 = (r, w2) \<Longrightarrow>
     files w2 = files w1 \<and> unlinked w2 = unlinked w1 \<and> secrets w2 = secrets w1 \<and>
     dsql_requests w2 = dsql_requests w1 \<and>
     connections w2 = (case r of Inr (Some conn) \<Rightarrow> conn # connections w1 | _ \<Rightarrow> connections w1)"
  by (auto simp: try_connect_def psycopg_connect_def split: option.splits if_splits)


lemma connect_and_authenticate_world:
  assumes "secret_dict ''username'' \<noteq> None" "secret_dict ''password'' \<noteq> None"
    "secret_dict ''host'' \<noteq> None"
    and "connect_and_authenticate e secret_dict port dbname w = (r, w')"
  shows "files w' = files w \<and> unlinked w' = unlinked w @ [fresh_path (files w)] \<and>
         secrets w' = secrets w \<and> dsql_requests w' = dsql_requests w \<and>
         connections w' =
           (case r of Inr (Some conn) \<Rightarrow> conn # connections w | _ \<Rightarrow> connections w)"
proof (cases "http_get e cert_url")
  case (Inl err)
  with assms(4) show ?thesis
    by (auto simp: connect_and_authenticate_def get_amazon_root_cert_fail)
next
  case (Inr content)
  obtain username password host where
    f: "secret_dict ''username'' = Some username" "secret_dict ''password'' = Some password"
       "secret_dict ''host'' = Some host"
    using assms(1-3) by auto
  let ?p = "fresh_path (files w)"
  let ?w1 = "w\<lparr>files := files w @ [(?p, content)]\<rparr>"
  let ?vf = "\<lparr>pg_dbname = dbname, pg_user = username, pg_password = password,
             pg_port = port, pg_host = host, pg_sslmode = ''verify-full'',
             pg_sslrootcert = Some ?p\<rparr>"
  let ?rq = "\<lparr>pg_dbname = dbname, pg_user = username, pg_password = password,
             pg_port = port, pg_host = host, pg_sslmode = ''require'',
             pg_sslrootcert = None\<rparr>"
  obtain r2 w2 where c: "try_connect e ?vf ?rq ?w1 = (r2, w2)"
    by (cases "try_connect e ?vf ?rq ?w1")
  note tw = try_connect_world [OF c]
  have ex: "path_exists ?p w2"
    using tw by (simp add: path_exists_def)
  have "connect_and_authenticate e secret_dict port dbname w = (r2, unlink ?p w2)"
    using c ex
    by (simp add: connect_and_authenticate_def get_amazon_root_cert_ok [OF Inr]
        getitem_def f Let_def)
  with assms(4) have "r = r2" "w' = unlink ?p w2" by simp_all
  then show ?thesis
    using tw by (auto simp: unlink_def filter_fresh split: sum.splits option.splits)
qed



section \<open>The test phase\<close>

lemma get_secret_dict_fields:
  "get_secret_dict arn stage token w = Inr sd \<Longrightarrow>
   sd ''username'' \<noteq> None \<and> sd ''password'' \<noteq> None \<and> sd ''host'' \<noteq> None \<and>
   sd ''engine'' = Some (JStr ''postgres'')"
  unfolding get_secret_dict_def
  by (auto simp: json_loads_def check_fields_find required_fields_def supported_engines_def
      split: sum.splits json.splits option.splits if_splits plaintext.splits)

lemma get_connection_world:
  assumes "sd ''username'' \<noteq> None" "sd ''password'' \<noteq> None" "sd ''host'' \<noteq> None"
    and "get_connection e sd w = (r, w')"
  shows "files w' = files w \<and> secrets w' = secrets w \<and> dsql_requests w' = dsql_requests w \<and>
         connections w' =
           (case r of Inr (Some conn) \<Rightarrow> conn # connections w | _ \<Rightarrow> connections w)"
proof (cases "case sd ''port'' of Some p \<Rightarrow> py_int e p | None \<Rightarrow> Inr 5432")
  case (Inl err)
  with assms(4) show ?thesis by (auto simp: get_connection_def)
next
  case (Inr port)
  with assms(4) have "connect_and_authenticate e sd port
      (case sd ''dbname'' of Some d \<Rightarrow> d | None \<Rightarrow> JStr ''postgres'') w = (r, w')"
    by (simp add: get_connection_def)
  from connect_and_authenticate_world [OF assms(1-3) this] show ?thesis by simp
qed

lemma get_connection_rejected:
  assumes "sd ''username'' \<noteq> None" "sd ''password'' \<noteq> None" "sd ''host'' \<noteq> None"
    and "http_get e cert_url = Inr content"
    and "(case sd ''port'' of Some p \<Rightarrow> py_int e p | None \<Rightarrow> Inr 5432) = Inr port"
    and "\<forall>p. \<exists>m. pg_connect e p = Some (PsycopgError m)"
  shows "fst (get_connection e sd w) = Inr None"
proof -
  obtain username password host where
    f: "sd ''username'' = Some username" "sd ''password'' = Some password"
       "sd ''host'' = Some host"
    using assms(1-3) by auto
  have t: "r = Inr None" if tc: "try_connect e vf rq w1 = (r, w2)" for vf rq w1 r w2
  proof -
    obtain m1 where m1: "pg_connect e vf = Some (PsycopgError m1)" using assms(6) by blast
    obtain m2 where m2: "pg_connect e rq = Some (PsycopgError m2)" using assms(6) by blast
    show ?thesis
      using tc by (simp add: try_connect_def psycopg_connect_def m1 m2 is_psycopg_error_def)
  qed
  show ?thesis
    by (auto simp: get_connection_def assms(5) connect_and_authenticate_def
        get_amazon_root_cert_ok [OF assms(4)] getitem_def f Let_def split: prod.splits dest: t)
qed

text \<open>
  Claim C5, amended: with the pending document fetched, \<^verbatim>\<open>test_secret\<close> succeeds
  exactly when \<^verbatim>\<open>get_connection\<close> returns a connection on which the liveness query
  and the commit succeed; it fails with the \<open>ValueError\<close> of the phase when no
  connection is returned, which is so when the database rejects both TLS tiers; a
  failure of the query or of the commit is raised as the driver raised it; a \<open>port\<close>
  that \<^verbatim>\<open>int\<close> rejects raises that error with the world untouched; and in every case
  the connections and the files are left as they were.
\<close>

theorem test_secret_outcome:
  assumes "get_secret_dict arn ''AWSPENDING'' (Some token) w = Inr sd"
  shows "(fst (test_secret e arn token w) = Inr () \<longleftrightarrow>
            (\<exists>conn w1. get_connection e sd w = (Inr (Some conn), w1) \<and>
               pg_execute e conn ''SELECT CURRENT_TIMESTAMP'' = None \<and> pg_commit e conn = None))
       \<and> (fst (get_connection e sd w) = Inr None \<longrightarrow>
            fst (test_secret e arn token w) =
              Inl (ValueError (''Unable to log into database with pending secret of secret ARN ''
                               @ arn)))
       \<and> ((\<exists>content. http_get e cert_url = Inr content) \<and>
          (\<exists>port. (case sd ''port'' of Some p \<Rightarrow> py_int e p | None \<Rightarrow> Inr 5432) = Inr port) \<and>
          (\<forall>p. \<exists>m. pg_connect e p = Some (PsycopgError m)) \<longrightarrow>
            fst (test_secret e arn token w) =
              Inl (ValueError (''Unable to log into database with pending secret of secret ARN ''
                               @ arn)))
       \<and> (\<forall>conn err. fst (get_connection e sd w) = Inr (Some conn) \<and>
            pg_execute e conn ''SELECT CURRENT_TIMESTAMP'' = Some err \<longrightarrow>
            fst (test_secret e arn token w) = Inl err)
       \<and> (\<forall>conn err. fst (get_connection e sd w) = Inr (Some conn) \<and>
            pg_execute e conn ''SELECT CURRENT_TIMESTAMP'' = None \<and> pg_commit e conn = Some err \<longrightarrow>
            fst (test_secret e arn token w) = Inl err)
       \<and> (\<forall>err. (case sd ''port'' of Some p \<Rightarrow> py_int e p | None \<Rightarrow> Inr 5432) = Inl err \<longrightarrow>
            test_secret e arn token w = (Inl err, w))
       \<and> connections (snd (test_secret e arn token w)) = connections w
       \<and> files (snd (test_secret e arn token w)) = files w"
proof -
  obtain r w1 where g: "get_connection e sd w = (r, w1)"
    by (cases "get_connection e sd w")
  note flds = get_secret_dict_fields [OF assms]
  have gw: "files w1 = files w \<and> secrets w1 = secrets w \<and> dsql_requests w1 = dsql_requests w \<and>
         connections w1 =
           (case r of Inr (Some conn) \<Rightarrow> conn # connections w | _ \<Rightarrow> connections w)"
    using get_connection_world [OF _ _ _ g] flds by blast
  have rej: "r = Inr None"
    if "http_get e cert_url = Inr content"
      "(case sd ''port'' of Some p \<Rightarrow> py_int e p | None \<Rightarrow> Inr 5432) = Inr port"
      "\<forall>p. \<exists>m. pg_connect e p = Some (PsycopgError m)" for content port
    using get_connection_rejected [of sd e content port w] flds that g by simp
  have none: "r = Inr None \<Longrightarrow> fst (test_secret e arn token w) =
              Inl (ValueError (''Unable to log into database with pending secret of secret ARN ''
                               @ arn))"
    by (simp add: test_secret_def assms g)
  have rest: "(fst (test_secret e arn token w) = Inr () \<longleftrightarrow>
            (\<exists>conn w1. get_connection e sd w = (Inr (Some conn), w1) \<and>
               pg_execute e conn ''SELECT CURRENT_TIMESTAMP'' = None \<and> pg_commit e conn = None))
       \<and> (\<forall>conn err. fst (get_connection e sd w) = Inr (Some conn) \<and>
            pg_execute e conn ''SELECT CURRENT_TIMESTAMP'' = Some err \<longrightarrow>
            fst (test_secret e arn token w) = Inl err)
       \<and> (\<forall>conn err. fst (get_connection e sd w) = Inr (Some conn) \<and>
            pg_execute e conn ''SELECT CURRENT_TIMESTAMP'' = None \<and> pg_commit e conn = Some err \<longrightarrow>
            fst (test_secret e arn token w) = Inl err)
       \<and> connections (snd (test_secret e arn token w)) = connections w
       \<and> files (snd (test_secret e arn token w)) = files w"
    using gw
    by (auto simp: test_secret_def assms g conn_close_def Let_def
        split: sum.splits option.splits)
  have port: "test_secret e arn token w = (Inl err, w)"
    if "(case sd ''port'' of Some p \<Rightarrow> py_int e p | None \<Rightarrow> Inr 5432) = Inl err" for err
    using that by (simp add: test_secret_def assms get_connection_def)
  show ?thesis
    using rest none rej port g by auto
qed

lemma pending_world_fetch:
  "get_secret_dict ''arn'' ''AWSPENDING'' (Some ''v2'') pending_world = Inr pending_doc"
  by (simp add: get_secret_dict_def get_secret_value_def pending_world_def pending_secret_def
      empty_world_def demo_secret_def stages_of_def json_loads_def pending_doc_def demo_doc_def
      supported_engines_def required_fields_def)

theorem test_secret_outcome_witness:
  "fst (test_secret reject_env ''arn'' ''v2'' pending_world)
     = Inl (ValueError ''Unable to log into database with pending secret of secret ARN arn'')
   \<and> connections (snd (test_secret reject_env ''arn'' ''v2'' pending_world)) = []
   \<and> files (snd (test_secret reject_env ''arn'' ''v2'' pending_world)) = []
   \<and> fst (test_secret fallback_env ''arn'' ''v2'' pending_world) = Inr ()
   \<and> connections (snd (test_secret fallback_env ''arn'' ''v2'' pending_world)) = []"
  using test_secret_outcome [OF pending_world_fetch, of reject_env]
    test_secret_outcome [OF pending_world_fetch, of fallback_env]
  by (simp add: reject_env_def fallback_env_def demo_env_def pending_doc_def demo_doc_def
      pending_world_def pending_secret_def empty_world_def get_connection_def
      connect_and_authenticate_def get_amazon_root_cert_def getitem_def Let_def
      try_connect_def psycopg_connect_def is_psycopg_error_def write_file_def fresh_path_def
      path_exists_def unlink_def)

text \<open>
  Claim C5, as stated, has \<^verbatim>\<open>test_secret\<close> fail with the validation error of the
  phase when the query fails. The source runs the query under \<^verbatim>\<open>try\<close> and
  \<^verbatim>\<open>finally\<close> with no \<^verbatim>\<open>except\<close>: the connection is closed and the driver's
  exception leaves the phase unchanged.
\<close>

theorem test_secret_query_failure_counterexample:
  "fst (test_secret query_fail_env ''arn'' ''v2'' pending_world)
   = Inl (PsycopgError ''permission denied'')"
  by (simp add: test_secret_def pending_world_fetch get_connection_def pending_doc_def
      demo_doc_def connect_and_authenticate_def get_amazon_root_cert_def query_fail_env_def
      demo_env_def getitem_def Let_def try_connect_def psycopg_connect_def)

section \<open>The finish phase\<close>

lemma find_filter:
  "find P xs = (case filter P xs of [] \<Rightarrow> None | x # _ \<Rightarrow> Some x)"
  by (induction xs) auto

lemma filter_single:
  assumes "x \<in> set xs" "P x" "length (filter P xs) \<le> 1"
  shows "filter P xs = [x]"
proof -
  have "x \<in> set (filter P xs)" using assms by simp
  with assms(3) show ?thesis
    by (cases "filter P xs") auto
qed

lemma find_current_find:
  "find_current token vs =
     (case find (has_stage ''AWSCURRENT'') vs of
        None \<Rightarrow> Left None
      | Some vst \<Rightarrow> if fst vst = token then Returned else Left (Some (fst vst)))"
  by (induction vs) (auto simp: has_stage_def)

lemma filter_key:
  "distinct (map fst vs) \<Longrightarrow> map_of vs k = Some v \<Longrightarrow>
   map fst (filter (\<lambda>x. fst x = k) vs) = [k]"
proof (induction vs)
  case Nil
  then show ?case by simp
next
  case (Cons a vs)
  show ?case
  proof (cases "fst a = k")
    case True
    have "fst a \<notin> fst ` set vs"
      using Cons.prems(1) by simp
    then have "\<forall>x\<in>set vs. fst x \<noteq> k"
      using True by blast
    then have "filter (\<lambda>x. fst x = k) vs = []"
      by (simp add: filter_empty_conv)
    with True show ?thesis by simp
  next
    case False
    with Cons show ?thesis by (cases a) auto
  qed
qed

lemma move_stage_holders:
  assumes d: "distinct (map fst vs)"
    and tok: "map_of vs token = Some stages"
    and only: "filter (has_stage l) vs = [(old, ost)]"
    and neq: "old \<noteq> token"
  shows "map fst (filter (has_stage l) (move_stage l token old vs)) = [token]"
proof -
  let ?f = "\<lambda>(u, st). if u = token then (u, if l \<in> set st then st else st @ [l])
            else if u = old then (u, removeAll l st) else (u, st)"
  have holder: "x = (old, ost)" if "x \<in> set vs" "has_stage l x" for x
  proof -
    from that have "x \<in> set (filter (has_stage l) vs)" by simp
    then show ?thesis unfolding only by simp
  qed
  have iff: "has_stage l (?f x) \<longleftrightarrow> fst x = token" if "x \<in> set vs" for x
  proof (cases x)
    case (Pair u st)
    show ?thesis
    proof (cases "u = token")
      case True
      with Pair show ?thesis by (simp add: has_stage_def)
    next
      case False
      show ?thesis
      proof (cases "u = old")
        case True
        with Pair False show ?thesis by (simp add: has_stage_def)
      next
        case nold: False
        have "\<not> has_stage l x"
          using holder [OF that] Pair nold by auto
        with Pair False nold show ?thesis by (simp add: has_stage_def)
      qed
    qed
  qed
  have "filter (has_stage l) (map ?f vs) = map ?f (filter (\<lambda>x. fst x = token) vs)"
    unfolding filter_map o_def
    by (rule arg_cong [where f = "map ?f"], rule filter_cong) (simp_all add: iff)
  moreover have "fst \<circ> ?f = fst"
    by (auto simp: fun_eq_iff)
  ultimately show ?thesis
    using filter_key [OF d tok] by (simp add: move_stage_def)
qed

text \<open>
  Claim C4: on a store whose version ids are distinct and in which at most one version is
  staged \<open>AWSCURRENT\<close>, with the attempt token in the version map: when the token's
  version is already staged \<open>AWSCURRENT\<close>, \<^verbatim>\<open>finish_secret\<close> returns with the world
  unchanged; otherwise, \<open>old\<close> being the version staged \<open>AWSCURRENT\<close>, it returns with
  the stage moved from \<open>old\<close> to the token's version in one update; it returns whenever
  some version is staged \<open>AWSCURRENT\<close>; and after it returns, the versions staged
  \<open>AWSCURRENT\<close> are the token's version and no other.
\<close>

theorem finish_secret_current:
  assumes sec: "secrets w arn = Some s"
    and d: "distinct (map fst (VersionIdsToStages s))"
    and uniq: "length (filter (has_stage ''AWSCURRENT'') (VersionIdsToStages s)) \<le> 1"
    and tok: "map_of (VersionIdsToStages s) token = Some stages"
  shows "(''AWSCURRENT'' \<in> set stages \<longrightarrow> finish_secret arn token w = (Inr (), w))
       \<and> (''AWSCURRENT'' \<notin> set stages \<and>
            (old, ost) \<in> set (VersionIdsToStages s) \<and> ''AWSCURRENT'' \<in> set ost \<longrightarrow>
               finish_secret arn token w =
                 (Inr (), w\<lparr>secrets := (secrets w)(arn \<mapsto>
                    s\<lparr>VersionIdsToStages :=
                         move_stage ''AWSCURRENT'' token old (VersionIdsToStages s)\<rparr>)\<rparr>))
       \<and> (filter (has_stage ''AWSCURRENT'') (VersionIdsToStages s) \<noteq> [] \<longrightarrow>
            fst (finish_secret arn token w) = Inr ())
       \<and> (finish_secret arn token w = (Inr (), w') \<longrightarrow>
            (\<exists>s'. secrets w' arn = Some s' \<and>
               map fst (filter (has_stage ''AWSCURRENT'') (VersionIdsToStages s')) = [token]))"
proof -
  let ?vs = "VersionIdsToStages s"
  let ?P = "has_stage ''AWSCURRENT''"
  have mem: "(token, stages) \<in> set ?vs"
    using tok by (rule map_of_SomeD)
  have already: "finish_secret arn token w = (Inr (), w) \<and> map fst (filter ?P ?vs) = [token]"
    if cur: "''AWSCURRENT'' \<in> set stages"
  proof -
    have f: "filter ?P ?vs = [(token, stages)]"
      using filter_single [OF mem _ uniq] cur by (simp add: has_stage_def)
    then show ?thesis
      by (simp add: finish_secret_def describe_secret_def sec find_current_find find_filter)
  qed
  have moved: "finish_secret arn token w =
                 (Inr (), w\<lparr>secrets := (secrets w)(arn \<mapsto>
                    s\<lparr>VersionIdsToStages := move_stage ''AWSCURRENT'' token old ?vs\<rparr>)\<rparr>)
               \<and> map fst (filter ?P (move_stage ''AWSCURRENT'' token old ?vs)) = [token]"
    if ncur: "''AWSCURRENT'' \<notin> set stages"
      and old: "(old, ost) \<in> set ?vs" "''AWSCURRENT'' \<in> set ost" for old ost
  proof -
    have f: "filter ?P ?vs = [(old, ost)]"
      using filter_single [OF old(1) _ uniq] old(2) by (simp add: has_stage_def)
    have neq: "old \<noteq> token"
    proof
      assume "old = token"
      with old(1) d mem have "ost = stages"
        by (metis map_of_is_SomeI option.inject tok)
      with old(2) ncur show False by simp
    qed
    have so: "stages_of s old = ost"
      using old(1) d by (simp add: stages_of_def)
    have tin: "token \<in> fst ` set ?vs"
      using mem by force
    show ?thesis
      using neq so tin old(2) move_stage_holders [OF d tok f neq]
      by (simp add: finish_secret_def describe_secret_def sec find_current_find find_filter f
          update_secret_version_stage_def)
  qed
  have none: "fst (finish_secret arn token w) = Inl ParamValidationError"
    if "filter ?P ?vs = []"
    using that
    by (simp add: finish_secret_def describe_secret_def sec find_current_find find_filter
        update_secret_version_stage_def)
  have holder: "\<exists>old ost. (old, ost) \<in> set ?vs \<and> ''AWSCURRENT'' \<in> set ost"
    if "filter ?P ?vs \<noteq> []"
  proof -
    from that obtain x xs where e: "filter ?P ?vs = x # xs"
      by (auto simp: neq_Nil_conv)
    have "x \<in> set (filter ?P ?vs)"
      unfolding e by simp
    then have "(fst x, snd x) \<in> set ?vs \<and> ''AWSCURRENT'' \<in> set (snd x)"
      by (simp add: has_stage_def)
    then show ?thesis
      by (intro exI [of _ "fst x"] exI [of _ "snd x"])
  qed
  have returns: "fst (finish_secret arn token w) = Inr ()" if ne: "filter ?P ?vs \<noteq> []"
  proof (cases "''AWSCURRENT'' \<in> set stages")
    case True
    with already show ?thesis by simp
  next
    case False
    with holder [OF ne] moved show ?thesis by force
  qed
  have after: "\<exists>s'. secrets w' arn = Some s' \<and>
               map fst (filter ?P (VersionIdsToStages s')) = [token]"
    if fin: "finish_secret arn token w = (Inr (), w')" for w'
  proof (cases "''AWSCURRENT'' \<in> set stages")
    case True
    with already fin sec show ?thesis by auto
  next
    case False
    have "filter ?P ?vs \<noteq> []"
      using none fin by auto
    from holder [OF this] obtain old ost where
      o: "(old, ost) \<in> set ?vs" "''AWSCURRENT'' \<in> set ost" by blast
    from moved [OF False o] fin show ?thesis by auto
  qed
  show ?thesis
    using already moved returns after by blast
qed

lemma pending_world_secret: "secrets pending_world ''arn'' = Some pending_secret"
  by (simp add: pending_world_def empty_world_def)

lemma finished_world_secret: "secrets finished_world ''arn'' = Some finished_secret"
  by (simp add: finished_world_def empty_world_def)

theorem finish_secret_current_witness:
  "finish_secret ''arn'' ''v2'' pending_world = (Inr (), finished_world)
   \<and> finish_secret ''arn'' ''v2'' finished_world = (Inr (), finished_world)"
  using finish_secret_current [of pending_world "''arn''" pending_secret "''v2''" "[''AWSPENDING'']"
      "''v1''" "[''AWSCURRENT'']" finished_world]
    finish_secret_current [of finished_world "''arn''" finished_secret "''v2''" "[''AWSPENDING'', ''AWSCURRENT'']" "''v1''" "[]" finished_world]
  by (simp add: pending_world_secret finished_world_secret finished_world_def finished_secret_def
      pending_secret_def demo_secret_def has_stage_def move_stage_def pending_world_def
      empty_world_def)

section \<open>The create phase\<close>

lemma find_map_fst:
  "(\<And>x. x \<in> set xs \<Longrightarrow> P (f x) = P x \<and> fst (f x) = fst x) \<Longrightarrow>
   map_option fst (find P (map f xs)) = map_option fst (find P xs)"
  by (induction xs) auto

lemma find_append_not: "\<not> P y \<Longrightarrow> find P (xs @ [y]) = find P xs"
  by (induction xs) auto

lemma detach_others_keys: "map fst (detach_others v stages vs) = map fst vs"
  by (induction vs) (auto simp: detach_others_def)

lemma detach_others_clean:
  "x \<in> set (detach_others v stages vs) \<Longrightarrow> fst x \<noteq> v \<Longrightarrow> l \<in> set stages \<Longrightarrow>
   \<not> has_stage l x"
  by (auto simp: detach_others_def has_stage_def split: if_splits)

lemma attach_holders:
  assumes d: "distinct (map fst vs)" and l: "l \<in> set stages"
  shows "map fst (filter (has_stage l) (attach v stages (detach_others v stages vs))) = [v]"
proof -
  let ?vs' = "detach_others v stages vs"
  let ?g = "\<lambda>(u, st). if u = v then (u, st @ filter (\<lambda>l. l \<notin> set st) stages) else (u, st)"
  have d': "distinct (map fst ?vs')"
    using d by (simp add: detach_others_keys)
  show ?thesis
  proof (cases "v \<in> fst ` set ?vs'")
    case True
    then obtain st where st: "map_of ?vs' v = Some st"
      by (metis domD dom_map_of_conv_image_fst)
    have iff: "has_stage l (?g x) \<longleftrightarrow> fst x = v" if "x \<in> set ?vs'" for x
    proof (cases "fst x = v")
      case True
      then show ?thesis using l by (cases x) (auto simp: has_stage_def)
    next
      case False
      with detach_others_clean [OF that False l] show ?thesis
        by (cases x) (auto simp: has_stage_def)
    qed
    have "filter (has_stage l) (map ?g ?vs') = map ?g (filter (\<lambda>x. fst x = v) ?vs')"
      unfolding filter_map o_def
      by (rule arg_cong [where f = "map ?g"], rule filter_cong) (simp_all add: iff)
    moreover have "fst \<circ> ?g = fst"
      by (auto simp: fun_eq_iff)
    ultimately show ?thesis
      using filter_key [OF d' st] True by (simp add: attach_def)
  next
    case False
    have "filter (has_stage l) ?vs' = []"
      unfolding filter_empty_conv
    proof
      fix x assume x: "x \<in> set ?vs'"
      with False have "fst x \<noteq> v" by force
      from detach_others_clean [OF x this l] show "\<not> has_stage l x" .
    qed
    with False l show ?thesis
      by (simp add: attach_def has_stage_def)
  qed
qed

lemma attach_lookup:
  assumes l: "l \<in> set stages"
  shows "\<exists>st. map_of (attach v stages vs') v = Some st \<and> l \<in> set st"
proof (cases "v \<in> fst ` set vs'")
  case True
  have "\<exists>st. map_of (map (\<lambda>(u, st). if u = v then (u, st @ filter (\<lambda>l. l \<notin> set st) stages) else (u, st)) ys) v = Some st \<and> l \<in> set st"
    if "v \<in> fst ` set ys" for ys :: "(string \<times> string list) list"
    using that l by (induction ys) auto
  with True show ?thesis by (simp add: attach_def)
next
  case False
  then have "map_of vs' v = None"
    by (simp add: map_of_eq_None_iff)
  with False l show ?thesis
    by (simp add: attach_def map_add_def)
qed

lemma attach_other_stage:
  assumes l: "l \<notin> set stages"
  shows "map_option fst (find (has_stage l) (attach v stages (detach_others v stages vs)))
         = map_option fst (find (has_stage l) vs)"
proof -
  let ?vs' = "detach_others v stages vs"
  have det: "map_option fst (find (has_stage l) ?vs') = map_option fst (find (has_stage l) vs)"
    unfolding detach_others_def
    by (rule find_map_fst) (use l in \<open>auto simp: has_stage_def split: if_splits\<close>)
  have att: "map_option fst (find (has_stage l) (attach v stages ?vs'))
             = map_option fst (find (has_stage l) ?vs')"
  proof (cases "v \<in> fst ` set ?vs'")
    case True
    then show ?thesis
      unfolding attach_def
      by (simp only: if_True, intro find_map_fst)
        (use l in \<open>auto simp: has_stage_def split: if_splits\<close>)
  next
    case False
    then show ?thesis
      using l by (simp add: attach_def find_append_not has_stage_def)
  qed
  show ?thesis using det att by simp
qed

lemma get_secret_dict_ok:
  assumes "(if token \<noteq> None \<and> token \<noteq> Some []
            then get_secret_value arn token stage w
            else get_secret_value arn None stage w) = Inr (Json (JObj d))"
    and "d ''engine'' = Some (JStr ''postgres'')"
    and "d ''username'' \<noteq> None" "d ''password'' \<noteq> None" "d ''host'' \<noteq> None"
  shows "get_secret_dict arn stage token w = Inr d"
  unfolding get_secret_dict_def assms(1)
  using assms(2-5)
  by (auto simp: json_loads_def supported_engines_def required_fields_def)

lemma get_secret_dict_value:
  assumes "get_secret_dict arn stage token w = Inr d"
  shows "\<exists>p. (if token \<noteq> None \<and> token \<noteq> Some []
            then get_secret_value arn token stage w
            else get_secret_value arn None stage w) = Inr p"
  using assms unfolding get_secret_dict_def by (auto split: sum.splits)

lemma create_secret_cases:
  assumes "create_secret e arn token w = (Inr (), w1)"
  shows "(\<exists>cd pd. get_secret_dict arn ''AWSCURRENT'' None w = Inr cd \<and>
            get_secret_dict arn ''AWSPENDING'' (Some token) w = Inr pd \<and> w1 = w)
       \<or> (\<exists>cd h u pw wg. get_secret_dict arn ''AWSCURRENT'' None w = Inr cd \<and>
            get_secret_dict arn ''AWSPENDING'' (Some token) w = Inl ResourceNotFoundException \<and>
            cd ''host'' = Some h \<and> cd ''username'' = Some u \<and>
            generate_auth_token e (GenerateAuthToken_init e h 28800) u w = (Inr pw, wg) \<and>
            put_secret_value arn token (json_dumps (cd(''password'' \<mapsto> JStr pw)))
              [''AWSPENDING''] wg = (Inr (), w1))"
  using assms unfolding create_secret_def
  by (auto simp: getitem_def split: sum.splits if_splits option.splits prod.splits)

lemma generate_auth_token_world:
  "generate_auth_token e g u w = (r, wg) \<Longrightarrow>
   secrets wg = secrets w \<and> files wg = files w \<and> unlinked wg = unlinked w \<and>
   connections wg = connections w \<and>
   length (dsql_requests wg) \<le> length (dsql_requests w) + 1"
  by (auto simp: generate_auth_token_def dsql_generate_def Let_def split: if_splits json.splits)

lemma put_secret_value_ok:
  "put_secret_value arn token p stages wg = (Inr (), w1) \<Longrightarrow>
   \<exists>s. secrets wg arn = Some s \<and> SecretStrings s token = None \<and>
       w1 = wg\<lparr>secrets := (secrets wg)(arn \<mapsto>
              s\<lparr>VersionIdsToStages :=
                   attach token stages (detach_others token stages (VersionIdsToStages s)),
                 SecretStrings := (SecretStrings s)(token \<mapsto> p)\<rparr>)\<rparr>"
  by (auto simp: put_secret_value_def split: option.splits if_splits)

lemma get_by_stage_after_put:
  assumes sw: "secrets w arn = Some s"
    and s1: "secrets w1 arn = Some (s\<lparr>VersionIdsToStages :=
                   attach token stages (detach_others token stages (VersionIdsToStages s)),
                 SecretStrings := (SecretStrings s)(token \<mapsto> p)\<rparr>)"
    and none: "SecretStrings s token = None"
    and l: "l \<notin> set stages"
    and get: "get_secret_value arn None l w = Inr q"
  shows "get_secret_value arn None l w1 = Inr q"
proof -
  from get sw obtain vst where
    f: "find (has_stage l) (VersionIdsToStages s) = Some vst" and v: "SecretStrings s (fst vst) = Some q"
    by (auto simp: get_secret_value_def split: option.splits)
  from attach_other_stage [OF l, of token "VersionIdsToStages s"] f
  obtain vst1 where f1: "find (has_stage l) (attach token stages
        (detach_others token stages (VersionIdsToStages s))) = Some vst1" and e: "fst vst1 = fst vst"
    by (auto simp: map_option_case split: option.splits)
  have "fst vst \<noteq> token" using v none by auto
  then show ?thesis
    using v by (simp add: get_secret_value_def s1 f1 e)
qed

lemma pending_after_put:
  assumes d: "distinct (map fst (VersionIdsToStages s))"
    and s1: "secrets w1 arn = Some (s\<lparr>VersionIdsToStages :=
                   attach token [''AWSPENDING''] (detach_others token [''AWSPENDING''] (VersionIdsToStages s)),
                 SecretStrings := (SecretStrings s)(token \<mapsto> p)\<rparr>)"
  shows "(if Some token \<noteq> None \<and> Some token \<noteq> Some []
          then get_secret_value arn (Some token) ''AWSPENDING'' w1
          else get_secret_value arn None ''AWSPENDING'' w1) = Inr p"
proof (cases "token = []")
  case True
  let ?vs1 = "attach token [''AWSPENDING''] (detach_others token [''AWSPENDING''] (VersionIdsToStages s))"
  have h: "map fst (filter (has_stage ''AWSPENDING'') ?vs1) = [token]"
    by (rule attach_holders [OF d]) simp
  then obtain x where x: "filter (has_stage ''AWSPENDING'') ?vs1 = [x]" "fst x = token"
    by (cases "filter (has_stage ''AWSPENDING'') ?vs1") auto
  then have "find (has_stage ''AWSPENDING'') ?vs1 = Some x"
    by (simp add: find_filter)
  with x(2) True show ?thesis
    by (simp add: get_secret_value_def s1)
next
  case False
  from attach_lookup [of "''AWSPENDING''" "[''AWSPENDING'']" token
      "detach_others token [''AWSPENDING''] (VersionIdsToStages s)"]
  obtain st where "map_of (attach token [''AWSPENDING'']
      (detach_others token [''AWSPENDING''] (VersionIdsToStages s))) token = Some st"
      "''AWSPENDING'' \<in> set st"
    by auto
  with False show ?thesis
    by (simp add: get_secret_value_def s1 stages_of_def)
qed

lemma pending_holder_found:
  assumes "get_secret_dict arn ''AWSPENDING'' (Some token) w = Inr pd"
    and sw: "secrets w arn = Some s"
  shows "\<exists>x. x \<in> set (VersionIdsToStages s) \<and> has_stage ''AWSPENDING'' x \<and>
             (token \<noteq> [] \<longrightarrow> fst x = token)"
proof -
  from get_secret_dict_value [OF assms(1)] obtain p where
    g: "(if Some token \<noteq> None \<and> Some token \<noteq> Some []
            then get_secret_value arn (Some token) ''AWSPENDING'' w
            else get_secret_value arn None ''AWSPENDING'' w) = Inr p" by blast
  show ?thesis
  proof (cases "token = []")
    case True
    with g sw obtain vst where "find (has_stage ''AWSPENDING'') (VersionIdsToStages s) = Some vst"
      by (auto simp: get_secret_value_def split: option.splits)
    then have "vst \<in> set (VersionIdsToStages s) \<and> has_stage ''AWSPENDING'' vst"
      by (auto simp: find_Some_iff in_set_conv_nth)
    with True show ?thesis by blast
  next
    case False
    with g sw have "''AWSPENDING'' \<in> set (stages_of s token)"
      by (auto simp: get_secret_value_def split: option.splits if_splits)
    then obtain st where "map_of (VersionIdsToStages s) token = Some st" "''AWSPENDING'' \<in> set st"
      by (cases "map_of (VersionIdsToStages s) token") (auto simp: stages_of_def)
    then have "(token, st) \<in> set (VersionIdsToStages s) \<and> has_stage ''AWSPENDING'' (token, st)"
      by (auto simp: has_stage_def dest: map_of_SomeD)
    then show ?thesis by force
  qed
qed

text \<open>
  Claim C3: on a store whose version ids are distinct and in which at most one version is
  staged \<open>AWSPENDING\<close>, after a run of \<^verbatim>\<open>create_secret\<close> that returned, a second
  run with the same attempt token (in any environment) returns and leaves the world as
  the first run left it: it finds the pending version, issues no signing request and
  stores nothing. The two runs together issue at most one signing request; the current
  document is read as before; the pending version of the token is fetchable; and exactly
  one version is staged \<open>AWSPENDING\<close>, the token's.
\<close>

theorem create_secret_idempotent:
  assumes sw: "secrets w arn = Some s"
    and d: "distinct (map fst (VersionIdsToStages s))"
    and uniq: "length (filter (has_stage ''AWSPENDING'') (VersionIdsToStages s)) \<le> 1"
    and run: "create_secret e arn token w = (Inr (), w1)"
  shows "create_secret e' arn token w1 = (Inr (), w1)
       \<and> length (dsql_requests w1) \<le> length (dsql_requests w) + 1
       \<and> get_secret_dict arn ''AWSCURRENT'' None w1 = get_secret_dict arn ''AWSCURRENT'' None w
       \<and> (\<exists>pd. get_secret_dict arn ''AWSPENDING'' (Some token) w1 = Inr pd)
       \<and> (\<exists>s1. secrets w1 arn = Some s1 \<and>
             length (filter (has_stage ''AWSPENDING'') (VersionIdsToStages s1)) = 1 \<and>
             (token \<noteq> [] \<longrightarrow>
                map fst (filter (has_stage ''AWSPENDING'') (VersionIdsToStages s1)) = [token]))"
proof -
  from create_secret_cases [OF run]
  consider (found) cd pd where
      "get_secret_dict arn ''AWSCURRENT'' None w = Inr cd"
      "get_secret_dict arn ''AWSPENDING'' (Some token) w = Inr pd" "w1 = w"
    | (put) cd h u pw wg where
      "get_secret_dict arn ''AWSCURRENT'' None w = Inr cd"
      "get_secret_dict arn ''AWSPENDING'' (Some token) w = Inl ResourceNotFoundException"
      "cd ''host'' = Some h" "cd ''username'' = Some u"
      "generate_auth_token e (GenerateAuthToken_init e h 28800) u w = (Inr pw, wg)"
      "put_secret_value arn token (json_dumps (cd(''password'' \<mapsto> JStr pw)))
         [''AWSPENDING''] wg = (Inr (), w1)"
    by blast
  then show ?thesis
  proof cases
    case found
    have again: "create_secret e' arn token w1 = (Inr (), w1)"
      by (simp add: create_secret_def found)
    from pending_holder_found [OF found(2) sw] obtain x where
      x: "x \<in> set (VersionIdsToStages s)" "has_stage ''AWSPENDING'' x"
         "token \<noteq> [] \<longrightarrow> fst x = token" by blast
    have "filter (has_stage ''AWSPENDING'') (VersionIdsToStages s) = [x]"
      by (rule filter_single [OF x(1,2) uniq])
    with x(3) again found sw show ?thesis by simp
  next
    case put
    let ?nd = "cd(''password'' \<mapsto> JStr pw)"
    let ?s1 = "s\<lparr>VersionIdsToStages :=
                   attach token [''AWSPENDING''] (detach_others token [''AWSPENDING''] (VersionIdsToStages s)),
                 SecretStrings := (SecretStrings s)(token \<mapsto> json_dumps ?nd)\<rparr>"
    note gw = generate_auth_token_world [OF put(5)]
    from put_secret_value_ok [OF put(6)] gw sw
    have none: "SecretStrings s token = None"
      and w1: "w1 = wg\<lparr>secrets := (secrets wg)(arn \<mapsto> ?s1)\<rparr>"
      by auto
    have s1: "secrets w1 arn = Some ?s1"
      by (simp add: w1)
    have reqs: "length (dsql_requests w1) \<le> length (dsql_requests w) + 1"
      using gw by (simp add: w1)
    from get_secret_dict_value [OF put(1)] obtain q where
      q: "get_secret_value arn None ''AWSCURRENT'' w = Inr q" by auto
    have "get_secret_value arn None ''AWSCURRENT'' w1 = Inr q"
      by (rule get_by_stage_after_put [OF sw s1 none _ q]) simp
    with q have cur: "get_secret_dict arn ''AWSCURRENT'' None w1
                      = get_secret_dict arn ''AWSCURRENT'' None w"
      by (simp add: get_secret_dict_def)
    note flds = get_secret_dict_fields [OF put(1)]
    have pend: "get_secret_dict arn ''AWSPENDING'' (Some token) w1 = Inr ?nd"
      by (rule get_secret_dict_ok [OF pending_after_put [OF d s1, unfolded json_dumps_def]])
         (use flds in simp_all)
    have again: "create_secret e' arn token w1 = (Inr (), w1)"
      by (simp add: create_secret_def cur put(1) pend)
    have "map fst (filter (has_stage ''AWSPENDING'') (VersionIdsToStages ?s1)) = [token]"
      using attach_holders [OF d, of "''AWSPENDING''" "[''AWSPENDING'']" token] by simp
    moreover from this
    have "length (filter (has_stage ''AWSPENDING'') (VersionIdsToStages ?s1)) = 1"
      by (metis length_map length_Cons list.size(3) One_nat_def)
    ultimately show ?thesis
      using again reqs cur pend s1 by auto
  qed
qed

lemma lower_strip_app: "lower (strip ''app'') = ''app''"
  by (simp add: strip_def isspace_def lower_def lower_char_def)

lemma demo_world_current:
  "get_secret_dict ''arn'' ''AWSCURRENT'' None demo_world = Inr demo_doc"
  by (simp add: get_secret_dict_def get_secret_value_def demo_world_def empty_world_def
      demo_secret_def has_stage_def json_loads_def demo_doc_def supported_engines_def
      required_fields_def)

lemma demo_world_pending:
  "get_secret_dict ''arn'' ''AWSPENDING'' (Some ''v2'') demo_world = Inl ResourceNotFoundException"
  by (simp add: get_secret_dict_def get_secret_value_def demo_world_def empty_world_def
      demo_secret_def)

lemma demo_world_create:
  "create_secret demo_env ''arn'' ''v2'' demo_world = (Inr (), created_world)"
  unfolding create_secret_def demo_world_current demo_world_pending
  by (simp add: getitem_def
      generate_auth_token_def GenerateAuthToken_init_def dsql_generate_def lower_strip_app
      put_secret_value_def json_dumps_def attach_def detach_others_def Let_def
      demo_doc_def demo_env_def demo_world_def demo_secret_def empty_world_def
      created_world_def pending_world_def pending_secret_def pending_doc_def)

theorem create_secret_idempotent_witness:
  "create_secret demo_env ''arn'' ''v2'' demo_world = (Inr (), created_world)
   \<and> create_secret demo_env ''arn'' ''v2'' created_world = (Inr (), created_world)
   \<and> length (dsql_requests created_world) = 1
   \<and> get_secret_dict ''arn'' ''AWSCURRENT'' None created_world = Inr demo_doc"
  using create_secret_idempotent [OF demo_world_secret _ _ demo_world_create, of demo_env] demo_world_create
    demo_world_current
  by (simp add: demo_secret_def has_stage_def created_world_def)

end
